theory Spec2Isabelle
  imports Main "HOL-Library.Signed_Division"
begin

section \<open>Data model\<close>

text \<open>
  \<^verbatim>\<open>src/lib/Types.ts\<close>: \<^verbatim>\<open>interface KaomojiEntry { Character; Tags; Category }\<close>.
  A JavaScript string is a sequence of code units. The model uses \<^typ>\<open>string\<close>, whose
  characters are the 256 code units U+0000 .. U+00FF; on these the tables of the
  JavaScript runtime used below (white space, \<^verbatim>\<open>\p{L}\<close>, \<^verbatim>\<open>\p{N}\<close>, lower-casing) are
  written out in full. Code units above U+00FF are outside the model.
\<close>

record KaomojiEntry =
  Character :: string
  Tags :: "string list"
  Category :: string

section \<open>The JavaScript string primitives the script calls\<close>

text \<open>
  \<^verbatim>\<open>\s\<close> in a regular expression and \<^verbatim>\<open>String.prototype.trim\<close> use the same set:
  WhiteSpace and LineTerminator. Below U+0100 these are TAB, LF, VT, FF, CR, SP and NBSP.
\<close>

definition isWhiteSpace :: "char \<Rightarrow> bool" where
  "isWhiteSpace c =
     (let n = (of_char c :: nat)
      in n = 9 \<or> n = 10 \<or> n = 11 \<or> n = 12 \<or> n = 13 \<or> n = 32 \<or> n = 160)"

text \<open>\<^verbatim>\<open>\p{L}\<close> below U+0100: A-Z, a-z, U+00AA, U+00B5, U+00BA, U+00C0-D6, U+00D8-F6, U+00F8-FF.\<close>

definition isLetter :: "char \<Rightarrow> bool" where
  "isLetter c =
     (let n = (of_char c :: nat)
      in (65 \<le> n \<and> n \<le> 90) \<or> (97 \<le> n \<and> n \<le> 122) \<or> n = 170 \<or> n = 181 \<or> n = 186
         \<or> (192 \<le> n \<and> n \<le> 214) \<or> (216 \<le> n \<and> n \<le> 246) \<or> (248 \<le> n \<and> n \<le> 255))"

text \<open>\<^verbatim>\<open>\p{N}\<close> below U+0100: 0-9, U+00B2, U+00B3, U+00B9, U+00BC-BE.\<close>

definition isNumber :: "char \<Rightarrow> bool" where
  "isNumber c =
     (let n = (of_char c :: nat)
      in (48 \<le> n \<and> n \<le> 57) \<or> n = 178 \<or> n = 179 \<or> n = 185 \<or> (188 \<le> n \<and> n \<le> 190))"

text \<open>
  \<^verbatim>\<open>String.prototype.toLowerCase\<close>. Below U+0100 it maps each code unit on its own:
  A-Z, U+00C0-D6 and U+00D8-DE move up by 32, everything else stays.
\<close>

definition lowerChar :: "char \<Rightarrow> char" where
  "lowerChar c =
     (let n = (of_char c :: nat)
      in if (65 \<le> n \<and> n \<le> 90) \<or> (192 \<le> n \<and> n \<le> 214) \<or> (216 \<le> n \<and> n \<le> 222)
         then char_of (n + 32) else c)"

definition toLowerCase :: "string \<Rightarrow> string" where
  "toLowerCase s = map lowerChar s"

definition trim :: "string \<Rightarrow> string" where
  "trim s = rev (dropWhile isWhiteSpace (rev (dropWhile isWhiteSpace s)))"

text \<open>
  \<^verbatim>\<open>s.replace(pat, "")\<close> with a string pattern: the first occurrence of \<open>pat\<close> is cut
  out, and \<open>s\<close> is returned as it is when \<open>pat\<close> does not occur.
\<close>

fun replace_first :: "string \<Rightarrow> string \<Rightarrow> string" where
  "replace_first pat [] = []"
| "replace_first pat (c # s) =
     (if take (length pat) (c # s) = pat then drop (length pat) (c # s)
      else c # replace_first pat s)"

text \<open>\<^verbatim>\<open>s.split(",")\<close>: the pieces between commas; the empty string gives one empty piece.\<close>

fun split_comma :: "string \<Rightarrow> string list" where
  "split_comma [] = [[]]"
| "split_comma (c # s) =
     (if c = CHR '','' then [] # split_comma s
      else (case split_comma s of
              [] \<Rightarrow> [[c]]
            | piece # pieces \<Rightarrow> (c # piece) # pieces))"

section \<open>The token regular expression\<close>

text \<open>
  \<^verbatim>\<open>const tokenRegex = /(?:^|\s)(cat|tag):([^\s]+)/g\<close>.
  A match is the triple \<^verbatim>\<open>[fullMatch, type, value]\<close> that the loop destructures.

  \<open>match_body pre s\<close> matches \<^verbatim>\<open>(cat|tag):([^\s]+)\<close> at the head of \<open>s\<close>, after the
  prefix \<open>pre\<close> that \<^verbatim>\<open>(?:^|\s)\<close> consumed; the value run is greedy. It returns the match
  and the text after it.
\<close>

type_synonym regex_match = "string \<times> string \<times> string"

definition match_body :: "string \<Rightarrow> string \<Rightarrow> (regex_match \<times> string) option" where
  "match_body pre s =
     (if take 4 s = ''cat:'' \<or> take 4 s = ''tag:'' then
        (let val = takeWhile (\<lambda>c. \<not> isWhiteSpace c) (drop 4 s)
         in if val = [] then None
            else Some ((pre @ take 4 s @ val, take 3 s, val),
                       dropWhile (\<lambda>c. \<not> isWhiteSpace c) (drop 4 s)))
      else None)"

text \<open>
  One attempt of the regular expression at one position. \<open>at_start\<close> says that the
  position is index 0, the only place where \<^verbatim>\<open>^\<close> matches; the alternative \<^verbatim>\<open>^\<close> is tried
  before \<^verbatim>\<open>\s\<close>.
\<close>

definition match_at :: "bool \<Rightarrow> string \<Rightarrow> (regex_match \<times> string) option" where
  "match_at at_start s =
     (case (if at_start then match_body [] s else None) of
        Some r \<Rightarrow> Some r
      | None \<Rightarrow>
          (case s of
             [] \<Rightarrow> None
           | c # s' \<Rightarrow> if isWhiteSpace c then match_body [c] s' else None))"

lemma match_body_shorter:
  "match_body pre s = Some (m, rest) \<Longrightarrow> length rest < length s"
proof -
  assume h: "match_body pre s = Some (m, rest)"
  then have k: "take 4 s = ''cat:'' \<or> take 4 s = ''tag:''"
    by (auto simp: match_body_def split: if_splits)
  then have four: "4 \<le> length s"
    by (cases "4 \<le> length s") (auto dest: arg_cong [where f = length])
  from h have "rest = dropWhile (\<lambda>c. \<not> isWhiteSpace c) (drop 4 s)"
    by (auto simp: match_body_def Let_def split: if_splits)
  then have "length rest \<le> length (drop 4 s)"
    using length_dropWhile_le [of "\<lambda>c. \<not> isWhiteSpace c" "drop 4 s"] by simp
  with four show ?thesis by simp
qed

lemma match_at_shorter:
  "match_at b s = Some (m, rest) \<Longrightarrow> length rest < length s"
  by (auto simp: match_at_def split: if_splits option.splits list.splits
           dest: match_body_shorter)

text \<open>
  The loop \<^verbatim>\<open>while ((match = tokenRegex.exec(query)) !== null)\<close>: with the \<^verbatim>\<open>g\<close> flag each
  call scans on from \<^verbatim>\<open>lastIndex\<close>, the end of the previous match, trying every position
  in turn. \<open>exec_all True query\<close> is the list of all matches, left to right.
\<close>

function exec_all :: "bool \<Rightarrow> string \<Rightarrow> regex_match list" where
  "exec_all at_start s =
     (case match_at at_start s of
        Some (m, rest) \<Rightarrow> m # exec_all False rest
      | None \<Rightarrow> (case s of [] \<Rightarrow> [] | c # s' \<Rightarrow> exec_all False s'))"
  by pat_completeness auto
termination
  by (relation "measure (\<lambda>(b, s). length s)") (auto dest: match_at_shorter)

declare exec_all.simps [simp del]

section \<open>FilteredResults\<close>

text \<open>
  \<^verbatim>\<open>value.replace(/[^\p{L}\p{N}_-]/gu, "").toLowerCase()\<close>
\<close>

definition sanitize :: "string \<Rightarrow> string" where
  "sanitize val =
     toLowerCase (filter (\<lambda>c. isLetter c \<or> isNumber c \<or> c = CHR ''_'' \<or> c = CHR ''-'') val)"

text \<open>
  The body of the \<^verbatim>\<open>while\<close> loop, on the loop's variables
  \<^verbatim>\<open>(hasTokens, filtered, remainingQuery)\<close>.
\<close>

type_synonym loop_state = "bool \<times> KaomojiEntry list \<times> string"

definition token_step :: "regex_match \<Rightarrow> loop_state \<Rightarrow> loop_state" where
  "token_step m st =
     (case (m, st) of
        ((fullMatch, type, val), (hasTokens, filtered, remainingQuery)) \<Rightarrow>
          (let sanitizedValue = sanitize val;
               filtered' =
                 (if type = ''cat'' then
                    filter (\<lambda>k. toLowerCase (Category k) = sanitizedValue) filtered
                  else if type = ''tag'' then
                    filter (\<lambda>k. list_ex (\<lambda>t. toLowerCase t = sanitizedValue) (Tags k)) filtered
                  else filtered)
           in (True, filtered', trim (replace_first fullMatch remainingQuery))))"

definition token_loop :: "KaomojiEntry list \<Rightarrow> string \<Rightarrow> loop_state" where
  "token_loop KaomojiList query =
     foldl (\<lambda>st m. token_step m st) (False, KaomojiList, query) (exec_all True query)"

text \<open>
  \<open>fuse xs q\<close> stands for \<^verbatim>\<open>new Fuse(xs, FuseOptions).search(q).map((r) => r.item)\<close>.
  Fuse.js is a library outside the repository, so the fuzzy search is a parameter.
\<close>

type_synonym fuse_search = "KaomojiEntry list \<Rightarrow> string \<Rightarrow> KaomojiEntry list"

definition FilteredResults :: "fuse_search \<Rightarrow> KaomojiEntry list \<Rightarrow> string \<Rightarrow> KaomojiEntry list" where
  "FilteredResults fuse KaomojiList SearchQuery =
     (let query = trim SearchQuery
      in if query = [] then KaomojiList
         else (case token_loop KaomojiList query of
                 (hasTokens, filtered, remainingQuery) \<Rightarrow>
                   if hasTokens then
                     (if length remainingQuery > 0 then fuse filtered remainingQuery
                      else filtered)
                   else fuse KaomojiList query))"

text \<open>
  The value of \<^verbatim>\<open>remainingQuery\<close> when the loop ends. It does not depend on the catalog.
\<close>

definition remainingQuery_of :: "string \<Rightarrow> string" where
  "remainingQuery_of raw =
     (case token_loop [] (trim raw) of (hasTokens, filtered, remainingQuery) \<Rightarrow> remainingQuery)"

section \<open>The query parser and the filters, in the specification's words\<close>

text \<open>
  The specification's residual: the raw string with every matched token (its leading
  white space included) removed at the place where it was matched, then trimmed.
\<close>

function spec_remove_tokens :: "bool \<Rightarrow> string \<Rightarrow> string" where
  "spec_remove_tokens at_start s =
     (case match_at at_start s of
        Some (m, rest) \<Rightarrow> spec_remove_tokens False rest
      | None \<Rightarrow> (case s of [] \<Rightarrow> [] | c # s' \<Rightarrow> c # spec_remove_tokens False s'))"
  by pat_completeness auto
termination
  by (relation "measure (\<lambda>(b, s). length s)") (auto dest: match_at_shorter)

declare spec_remove_tokens.simps [simp del]

definition spec_residual :: "string \<Rightarrow> string" where
  "spec_residual raw = trim (spec_remove_tokens True raw)"

text \<open>
  The specification's structured filters: for every match its kind and its value,
  stripped of every character that is not a letter, digit, underscore or hyphen and then
  lower-cased.
\<close>

definition spec_tokens :: "string \<Rightarrow> (string \<times> string) list" where
  "spec_tokens raw = map (\<lambda>(fullMatch, type, val). (type, sanitize val)) (exec_all True raw)"

text \<open>
  A category filter holds when the entry's category equals the value, a tag filter when
  at least one of the entry's tags does, both without regard to case.
\<close>

definition spec_token_holds :: "string \<times> string \<Rightarrow> KaomojiEntry \<Rightarrow> bool" where
  "spec_token_holds tok k =
     (case tok of (kind, v) \<Rightarrow>
        if kind = ''cat'' then toLowerCase (Category k) = v
        else if kind = ''tag'' then list_ex (\<lambda>t. toLowerCase t = v) (Tags k)
        else True)"

text \<open>The entries that satisfy every filter of the query, in catalog order.\<close>

definition spec_filtered :: "KaomojiEntry list \<Rightarrow> string \<Rightarrow> KaomojiEntry list" where
  "spec_filtered catalog raw = filter (\<lambda>k. list_all (\<lambda>tok. spec_token_holds tok k) (spec_tokens raw)) catalog"

section \<open>Application state and effects\<close>

text \<open>
  The \<^verbatim>\<open>$state\<close> variables of the script. The numbers \<^verbatim>\<open>SelectedIndex\<close>,
  \<^verbatim>\<open>LastCopiedIndex\<close> and \<^verbatim>\<open>GridCols\<close> only ever hold integers.
\<close>

record AppState =
  KaomojiList :: "KaomojiEntry list"
  RecentKaomojis :: "KaomojiEntry list"
  SearchQuery :: string
  LastCopied :: string
  LastCopiedIndex :: int
  ShowToast :: bool
  ShowAddModal :: bool
  SelectedIndex :: int
  GridCols :: int
  NewCharacter :: string
  NewTags :: string
  NewCategory :: string

text \<open>
  What a handler does to the world outside the state, in the order it does it: the calls
  to the backend and the browser, the console messages, and the deferred callbacks it
  schedules.
\<close>

datatype effect =
    InvokeCopyToClipboard string
  | NavigatorWriteText string
  | InvokeSaveKaomoji KaomojiEntry
  | ConsoleWarn string
  | ConsoleError string
  | PreventDefault
  | ScrollToSelected
  | ToastScheduled

section \<open>Recents and copying\<close>

text \<open>
  \<^verbatim>\<open>RecentKaomojis = [entry, ...RecentKaomojis.filter((k) => k.Character !== entry.Character)].slice(0, 8)\<close>
\<close>

definition AddToRecents :: "KaomojiEntry \<Rightarrow> AppState \<Rightarrow> AppState" where
  "AddToRecents entry s =
     s\<lparr>RecentKaomojis :=
         take 8 (entry # filter (\<lambda>k. Character k \<noteq> Character entry) (RecentKaomojis s))\<rparr>"

text \<open>
  The synchronous part of \<^verbatim>\<open>HandleCopySuccess\<close>; the callback it hands to \<^verbatim>\<open>tick()\<close> and
  the one that callback hands to \<^verbatim>\<open>setTimeout\<close> run later, as transitions of their own.
\<close>

definition HandleCopySuccess :: "string \<Rightarrow> int \<Rightarrow> AppState \<Rightarrow> AppState" where
  "HandleCopySuccess character index s =
     s\<lparr>LastCopied := character, LastCopiedIndex := index, ShowToast := False\<rparr>"

definition toast_tick :: "AppState \<Rightarrow> AppState" where
  "toast_tick s = s\<lparr>ShowToast := True\<rparr>"

definition toast_timeout :: "AppState \<Rightarrow> AppState" where
  "toast_timeout s = s\<lparr>ShowToast := False, LastCopiedIndex := - 1\<rparr>"

text \<open>
  \<^verbatim>\<open>CopyToClipboard(character, index)\<close>, run to completion. \<open>native_ok\<close> says whether
  \<^verbatim>\<open>invoke("CopyToClipboard", ...)\<close> resolves, \<open>navigator_ok\<close> whether
  \<^verbatim>\<open>navigator.clipboard.writeText\<close> does; a rejection lands in the \<^verbatim>\<open>catch\<close> block.
\<close>

definition CopyToClipboard ::
  "bool \<Rightarrow> bool \<Rightarrow> string \<Rightarrow> int \<Rightarrow> AppState \<Rightarrow> AppState \<times> effect list" where
  "CopyToClipboard native_ok navigator_ok character index s =
     (let (success1, tr1) =
            (if native_ok then (True, [InvokeCopyToClipboard character])
             else (False, [InvokeCopyToClipboard character,
                           ConsoleWarn ''Native copy failed, trying fallback...'']));
          (successState, tr2) =
            (if \<not> success1 then
               (if navigator_ok then (True, [NavigatorWriteText character])
                else (False, [NavigatorWriteText character,
                              ConsoleWarn ''Navigator copy failed'']))
             else (success1, []))
      in if successState then
           (let s1 = (case find (\<lambda>k. Character k = character) (KaomojiList s) of
                        Some entry \<Rightarrow> AddToRecents entry s
                      | None \<Rightarrow> s)
            in (HandleCopySuccess character index s1, tr1 @ tr2 @ [ToastScheduled]))
         else (s, tr1 @ tr2))"

section \<open>Adding and loading entries\<close>

text \<open>\<^verbatim>\<open>Array.prototype.findIndex\<close>; \<open>None\<close> stands for the result \<^verbatim>\<open>-1\<close>.\<close>

fun findIndex :: "('a \<Rightarrow> bool) \<Rightarrow> 'a list \<Rightarrow> nat option" where
  "findIndex P [] = None"
| "findIndex P (x # xs) = (if P x then Some 0 else map_option Suc (findIndex P xs))"

text \<open>The block under \<^verbatim>\<open>// IMMUTABLE UPSERT STRATEGY\<close> of \<^verbatim>\<open>SubmitNewKaomoji\<close>.\<close>

definition upsert :: "KaomojiEntry list \<Rightarrow> KaomojiEntry \<Rightarrow> KaomojiEntry list" where
  "upsert list entry =
     (case findIndex (\<lambda>k. Character k = Character entry) list of
        Some index \<Rightarrow> take index list @ [entry] @ drop (index + 1) list
      | None \<Rightarrow> list @ [entry])"

text \<open>
  \<^verbatim>\<open>SubmitNewKaomoji()\<close>. \<open>save_ok\<close> says whether \<^verbatim>\<open>invoke("SaveKaomoji", ...)\<close> resolves;
  when it rejects, control jumps over the rest of the \<^verbatim>\<open>try\<close> block.
\<close>

definition SubmitNewKaomoji :: "bool \<Rightarrow> AppState \<Rightarrow> AppState \<times> effect list" where
  "SubmitNewKaomoji save_ok s =
     (if trim (NewCharacter s) = [] then (s, [])
      else
        (let entry = \<lparr>Character = trim (NewCharacter s),
                      Tags = filter (\<lambda>t. t \<noteq> []) (map trim (split_comma (NewTags s))),
                      Category = NewCategory s\<rparr>
         in if save_ok then
              (s\<lparr>KaomojiList := upsert (KaomojiList s) entry,
                 NewCharacter := [], NewTags := [], ShowAddModal := False\<rparr>,
               [InvokeSaveKaomoji entry])
            else (s, [InvokeSaveKaomoji entry, ConsoleError ''Failed to save kaomoji''])))"

text \<open>
  \<^verbatim>\<open>RecomputeCols()\<close>. The argument is \<open>None\<close> when \<^verbatim>\<open>GridEl\<close> is null, and otherwise the
  value of \<^verbatim>\<open>Math.floor((width + gap) / (minCard + gap))\<close> that the layout gives.
\<close>

definition RecomputeCols :: "int option \<Rightarrow> AppState \<Rightarrow> AppState" where
  "RecomputeCols fit s =
     (case fit of None \<Rightarrow> s | Some n \<Rightarrow> s\<lparr>GridCols := max 1 n\<rparr>)"

text \<open>
  The asynchronous block of \<^verbatim>\<open>onMount\<close>. \<^verbatim>\<open>invoke("LoadUserKaomojis")\<close> either rejects
  or resolves, to a list or to a null value.
\<close>

datatype load_outcome = LoadRejected | LoadResolved "KaomojiEntry list option"

definition onMount_load :: "load_outcome \<Rightarrow> int option \<Rightarrow> AppState \<Rightarrow> AppState \<times> effect list" where
  "onMount_load outcome fit s =
     (let (s1, tr) =
        (case outcome of
           LoadRejected \<Rightarrow> (s, [ConsoleError ''Failed to load user kaomojis''])
         | LoadResolved None \<Rightarrow> (s, [])
         | LoadResolved (Some userItems) \<Rightarrow>
             if length userItems > 0 then
               (let existingChars = set (map Character (KaomojiList s));
                    uniqueUserItems = filter (\<lambda>k. Character k \<notin> existingChars) userItems
                in (s\<lparr>KaomojiList := KaomojiList s @ uniqueUserItems\<rparr>, []))
             else (s, []))
      in (RecomputeCols fit s1, tr))"

section \<open>Selection and keyboard\<close>

text \<open>The \<^verbatim>\<open>$effect\<close> under \<^verbatim>\<open>// RANGING CONTRACT\<close>, run after the results changed.\<close>

definition SelectedIndex_effect :: "fuse_search \<Rightarrow> AppState \<Rightarrow> AppState" where
  "SelectedIndex_effect fuse s =
     (let count = int (length (FilteredResults fuse (KaomojiList s) (SearchQuery s)))
      in if count = 0 then s\<lparr>SelectedIndex := 0\<rparr>
         else if SelectedIndex s \<ge> count then s\<lparr>SelectedIndex := count - 1\<rparr>
         else s)"

text \<open>
  A \<^verbatim>\<open>KeyboardEvent\<close>: its key, and the tag name of its target (\<open>None\<close> for a null target).
\<close>

record KeyboardEvent =
  key :: string
  targetTag :: "string option"

text \<open>\<^verbatim>\<open>xs[i]\<close> for an integer \<open>i\<close>: \<^verbatim>\<open>undefined\<close> (here \<open>None\<close>) out of range.\<close>

definition js_index :: "'a list \<Rightarrow> int \<Rightarrow> 'a option" where
  "js_index xs i = (if 0 \<le> i \<and> i < int (length xs) then Some (xs ! nat i) else None)"

text \<open>
  \<^verbatim>\<open>HandleKeyDown(event)\<close>. JavaScript's \<^verbatim>\<open>%\<close> takes the sign of the dividend, which is
  \<open>smod\<close>. The copy that \<^verbatim>\<open>Enter\<close> starts is run to completion, with the outcomes of the
  two clipboard writes as for \<open>CopyToClipboard\<close>.
\<close>

definition HandleKeyDown ::
  "fuse_search \<Rightarrow> bool \<Rightarrow> bool \<Rightarrow> KeyboardEvent \<Rightarrow> AppState \<Rightarrow> AppState \<times> effect list" where
  "HandleKeyDown fuse native_ok navigator_ok event s =
     (if ShowAddModal s then
        (if key event = ''Escape'' then (s\<lparr>ShowAddModal := False\<rparr>, []) else (s, []))
      else
        (let isTyping = (case targetTag event of
                           None \<Rightarrow> False
                         | Some tagName \<Rightarrow> tagName = ''INPUT'' \<or> tagName = ''TEXTAREA'');
             navKeys = [''ArrowRight'', ''ArrowLeft'', ''ArrowDown'', ''ArrowUp''];
             handledKeys = navKeys @ [''Enter'', ''Escape'']
         in if isTyping \<and> key event \<in> set navKeys then (s, [])
            else
              (let pd = (if key event \<in> set handledKeys then [PreventDefault] else []);
                   results = FilteredResults fuse (KaomojiList s) (SearchQuery s);
                   itemsCount = int (length results)
               in if itemsCount = 0 then (s, pd)
                  else if key event = ''ArrowRight'' then
                    (s\<lparr>SelectedIndex := (SelectedIndex s + 1) smod itemsCount\<rparr>,
                     pd @ [ScrollToSelected])
                  else if key event = ''ArrowLeft'' then
                    (s\<lparr>SelectedIndex := (SelectedIndex s - 1 + itemsCount) smod itemsCount\<rparr>,
                     pd @ [ScrollToSelected])
                  else if key event = ''ArrowDown'' then
                    (s\<lparr>SelectedIndex := min (SelectedIndex s + GridCols s) (itemsCount - 1)\<rparr>,
                     pd @ [ScrollToSelected])
                  else if key event = ''ArrowUp'' then
                    (s\<lparr>SelectedIndex := max (SelectedIndex s - GridCols s) 0\<rparr>,
                     pd @ [ScrollToSelected])
                  else if key event = ''Enter'' then
                    (case js_index results (SelectedIndex s) of
                       Some item \<Rightarrow>
                         (case CopyToClipboard native_ok navigator_ok (Character item)
                                 (SelectedIndex s) s of
                            (s', tr) \<Rightarrow> (s', pd @ tr))
                     | None \<Rightarrow> (s, pd))
                  else if key event = ''Escape'' then (s\<lparr>SearchQuery := []\<rparr>, pd)
                  else (s, pd))))"

section \<open>A small session for concrete checks\<close>

text \<open>
  A catalog of three entries, and the state the script starts in when this catalog is
  the bundled data: every \<^verbatim>\<open>$state\<close> variable at its initial value.
\<close>

definition joy_entry :: KaomojiEntry where
  "joy_entry = \<lparr>Character = ''(^_^)'', Tags = [''happy'', ''blush''], Category = ''Joy''\<rparr>"

definition sad_entry :: KaomojiEntry where
  "sad_entry = \<lparr>Character = ''(T_T)'', Tags = [''sad''], Category = ''Sadness''\<rparr>"

definition shy_entry :: KaomojiEntry where
  "shy_entry = \<lparr>Character = ''(>_<)'', Tags = [''shy''], Category = ''Joy''\<rparr>"

definition example_catalog :: "KaomojiEntry list" where
  "example_catalog = [joy_entry, sad_entry, shy_entry]"

definition initial_state :: "KaomojiEntry list \<Rightarrow> AppState" where
  "initial_state bundled =
     \<lparr>KaomojiList = bundled, RecentKaomojis = [], SearchQuery = [], LastCopied = [],
      LastCopiedIndex = - 1, ShowToast = False, ShowAddModal = False, SelectedIndex = 0,
      GridCols = 3, NewCharacter = [], NewTags = [], NewCategory = ''Joy''\<rparr>"

text \<open>
  A stand-in for the fuzzy search in concrete checks where the search is not reached or
  its answer does not matter: it finds nothing.
\<close>

definition fuse_none :: fuse_search where
  "fuse_none xs q = []"

text \<open>The writes to \<^verbatim>\<open>navigator.clipboard\<close> among the effects of a handler.\<close>

definition fallback_writes :: "effect list \<Rightarrow> effect list" where
  "fallback_writes tr = filter (\<lambda>e. case e of NavigatorWriteText t \<Rightarrow> True | _ \<Rightarrow> False) tr"

lemmas example_defs =
  joy_entry_def sad_entry_def shy_entry_def example_catalog_def initial_state_def

section \<open>Upsert on save\<close>

lemma findIndex_Some:
  "findIndex P xs = Some i \<Longrightarrow> i < length xs \<and> P (xs ! i) \<and> (\<forall>j<i. \<not> P (xs ! j))"
proof (induction xs arbitrary: i)
  case Nil
  then show ?case by simp
next
  case (Cons x xs)
  show ?case
  proof (cases "P x")
    case True
    with Cons.prems show ?thesis by simp
  next
    case False
    with Cons.prems obtain i' where i': "findIndex P xs = Some i'" "i = Suc i'"
      by auto
    from Cons.IH [OF i'(1)] False i'(2) show ?thesis
      by (auto simp: nth_Cons split: nat.splits)
  qed
qed

lemma findIndex_None: "findIndex P xs = None \<longleftrightarrow> (\<forall>x \<in> set xs. \<not> P x)"
  by (induction xs) auto

lemma upsert_present:
  assumes "findIndex (\<lambda>k. Character k = Character entry) list = Some i"
  shows "upsert list entry = list[i := entry]"
proof -
  from findIndex_Some [OF assms] have "i < length list" by simp
  then show ?thesis
    using assms by (simp add: upsert_def upd_conv_take_nth_drop)
qed

text \<open>
  The upsert block on its own, for every catalog and every entry: with the glyph present
  the result is the catalog updated at the index of the first entry with that glyph, so
  its length and every other position are as before; otherwise the entry is appended.
\<close>

lemma upsert_in_place_or_append:
  "(Character entry \<in> Character ` set list \<longrightarrow>
      (\<exists>i < length list.
         Character (list ! i) = Character entry \<and>
         (\<forall>j < i. Character (list ! j) \<noteq> Character entry) \<and>
         upsert list entry = list[i := entry] \<and>
         length (upsert list entry) = length list \<and>
         upsert list entry ! i = entry \<and>
         (\<forall>j < length list. j \<noteq> i \<longrightarrow> upsert list entry ! j = list ! j)))
   \<and> (Character entry \<notin> Character ` set list \<longrightarrow> upsert list entry = list @ [entry])"
proof (intro conjI impI)
  assume "Character entry \<in> Character ` set list"
  then have "findIndex (\<lambda>k. Character k = Character entry) list \<noteq> None"
    by (auto simp: findIndex_None)
  then obtain i where i: "findIndex (\<lambda>k. Character k = Character entry) list = Some i"
    by auto
  note f = findIndex_Some [OF i]
  have u: "upsert list entry = list[i := entry]" by (rule upsert_present [OF i])
  show "\<exists>i < length list.
         Character (list ! i) = Character entry \<and>
         (\<forall>j < i. Character (list ! j) \<noteq> Character entry) \<and>
         upsert list entry = list[i := entry] \<and>
         length (upsert list entry) = length list \<and>
         upsert list entry ! i = entry \<and>
         (\<forall>j < length list. j \<noteq> i \<longrightarrow> upsert list entry ! j = list ! j)"
    using f u by (intro exI [of _ i]) simp
next
  assume "Character entry \<notin> Character ` set list"
  then have "findIndex (\<lambda>k. Character k = Character entry) list = None"
    by (fastforce simp: findIndex_None image_iff)
  then show "upsert list entry = list @ [entry]" by (simp add: upsert_def)
qed

text \<open>
  C5. \<^verbatim>\<open>SubmitNewKaomoji\<close> with a successful save, on a form whose glyph is not blank.
  The entry it saves has the trimmed glyph, the trimmed non-empty tags and the chosen
  category. When the catalog already holds an entry with that glyph, the catalog
  afterwards is the old one with the new entry at the index of the first such entry: all
  fields overwritten, the length and every other position as before. When no entry has
  that glyph, the new entry is appended at the end.
\<close>

theorem SubmitNewKaomoji_upserts:
  "trim (NewCharacter s) \<noteq> [] \<Longrightarrow>
   (let entry = \<lparr>Character = trim (NewCharacter s),
                  Tags = filter (\<lambda>t. t \<noteq> []) (map trim (split_comma (NewTags s))),
                  Category = NewCategory s\<rparr>;
        list = KaomojiList s;
        list' = KaomojiList (fst (SubmitNewKaomoji True s))
    in snd (SubmitNewKaomoji True s) = [InvokeSaveKaomoji entry]
       \<and> (Character entry \<in> Character ` set list \<longrightarrow>
            (\<exists>i < length list.
               Character (list ! i) = Character entry \<and>
               (\<forall>j < i. Character (list ! j) \<noteq> Character entry) \<and>
               list' = list[i := entry] \<and>
               length list' = length list \<and>
               list' ! i = entry \<and>
               (\<forall>j < length list. j \<noteq> i \<longrightarrow> list' ! j = list ! j)))
       \<and> (Character entry \<notin> Character ` set list \<longrightarrow> list' = list @ [entry]))"
proof -
  assume ne: "trim (NewCharacter s) \<noteq> []"
  let ?entry = "\<lparr>Character = trim (NewCharacter s),
                  Tags = filter (\<lambda>t. t \<noteq> []) (map trim (split_comma (NewTags s))),
                  Category = NewCategory s\<rparr>"
  have run: "SubmitNewKaomoji True s =
               (s\<lparr>KaomojiList := upsert (KaomojiList s) ?entry,
                  NewCharacter := [], NewTags := [], ShowAddModal := False\<rparr>,
                [InvokeSaveKaomoji ?entry])"
    using ne by (simp add: SubmitNewKaomoji_def Let_def)
  then have cat: "KaomojiList (fst (SubmitNewKaomoji True s)) = upsert (KaomojiList s) ?entry"
    and eff: "snd (SubmitNewKaomoji True s) = [InvokeSaveKaomoji ?entry]"
    by simp_all
  from upsert_in_place_or_append [where entry = ?entry and list = "KaomojiList s"]
  show ?thesis
    unfolding Let_def cat eff by simp
qed

lemma SubmitNewKaomoji_examples:
  "trim '' (T_T)  '' \<noteq> []"
  "trim ''(o_o)'' \<noteq> []"
  "SubmitNewKaomoji True ((initial_state example_catalog)
       \<lparr>NewCharacter := '' (T_T)  '', NewTags := ''cry, ,sob '', NewCategory := ''Sadness''\<rparr>) =
     ((initial_state example_catalog)
        \<lparr>KaomojiList :=
           [joy_entry, \<lparr>Character = ''(T_T)'', Tags = [''cry'', ''sob''], Category = ''Sadness''\<rparr>,
            shy_entry],
         NewCategory := ''Sadness''\<rparr>,
      [InvokeSaveKaomoji \<lparr>Character = ''(T_T)'', Tags = [''cry'', ''sob''], Category = ''Sadness''\<rparr>])"
  "SubmitNewKaomoji True ((initial_state example_catalog)\<lparr>NewCharacter := ''(o_o)''\<rparr>) =
     ((initial_state example_catalog)
        \<lparr>KaomojiList :=
           [joy_entry, sad_entry, shy_entry,
            \<lparr>Character = ''(o_o)'', Tags = [], Category = ''Joy''\<rparr>]\<rparr>,
      [InvokeSaveKaomoji \<lparr>Character = ''(o_o)'', Tags = [], Category = ''Joy''\<rparr>])"
  by code_simp+

theorem SubmitNewKaomoji_upserts_witness:
  "trim (NewCharacter ((initial_state example_catalog)
           \<lparr>NewCharacter := '' (T_T)  '', NewTags := ''cry, ,sob '', NewCategory := ''Sadness''\<rparr>)) \<noteq> []
   \<and> ''(T_T)'' \<in> Character ` set example_catalog
   \<and> KaomojiList (fst (SubmitNewKaomoji True ((initial_state example_catalog)
           \<lparr>NewCharacter := '' (T_T)  '', NewTags := ''cry, ,sob '', NewCategory := ''Sadness''\<rparr>))) =
       [joy_entry, \<lparr>Character = ''(T_T)'', Tags = [''cry'', ''sob''], Category = ''Sadness''\<rparr>,
        shy_entry]
   \<and> trim (NewCharacter ((initial_state example_catalog)\<lparr>NewCharacter := ''(o_o)''\<rparr>)) \<noteq> []
   \<and> ''(o_o)'' \<notin> Character ` set example_catalog
   \<and> KaomojiList (fst (SubmitNewKaomoji True
           ((initial_state example_catalog)\<lparr>NewCharacter := ''(o_o)''\<rparr>))) =
       [joy_entry, sad_entry, shy_entry,
        \<lparr>Character = ''(o_o)'', Tags = [], Category = ''Joy''\<rparr>]"
proof -
  let ?s1 = "(initial_state example_catalog)
           \<lparr>NewCharacter := '' (T_T)  '', NewTags := ''cry, ,sob '', NewCategory := ''Sadness''\<rparr>"
  let ?s2 = "(initial_state example_catalog)\<lparr>NewCharacter := ''(o_o)''\<rparr>"
  have h1: "trim (NewCharacter ?s1) \<noteq> []" by (simp add: SubmitNewKaomoji_examples)
  have h2: "trim (NewCharacter ?s2) \<noteq> []" by (simp add: SubmitNewKaomoji_examples)
  have p1: "''(T_T)'' \<in> Character ` set example_catalog" by (simp add: example_defs)
  have p2: "''(o_o)'' \<notin> Character ` set example_catalog" by (simp add: example_defs)
  have e1: "snd (SubmitNewKaomoji True ?s1) =
      [InvokeSaveKaomoji \<lparr>Character = ''(T_T)'', Tags = [''cry'', ''sob''], Category = ''Sadness''\<rparr>]"
    using SubmitNewKaomoji_upserts [OF h1, unfolded Let_def, THEN conjunct1]
    by (simp add: SubmitNewKaomoji_examples)
  have e2: "snd (SubmitNewKaomoji True ?s2) =
      [InvokeSaveKaomoji \<lparr>Character = ''(o_o)'', Tags = [], Category = ''Joy''\<rparr>]"
    using SubmitNewKaomoji_upserts [OF h2, unfolded Let_def, THEN conjunct1]
    by (simp add: SubmitNewKaomoji_examples)
  from h1 h2 p1 p2 e1 e2 show ?thesis
    by (simp add: SubmitNewKaomoji_examples)
qed

text \<open>
  C6. When the save is rejected, \<^verbatim>\<open>SubmitNewKaomoji\<close> leaves the whole state as it was;
  in particular the catalog is not touched.
\<close>

theorem SubmitNewKaomoji_save_failed:
  "fst (SubmitNewKaomoji False s) = s \<and> KaomojiList (fst (SubmitNewKaomoji False s)) = KaomojiList s"
  by (simp add: SubmitNewKaomoji_def Let_def)

section \<open>The recents list\<close>

lemma filter_take_filter: "filter P (take n (filter P xs)) = take n (filter P xs)"
  by (rule filter_True) (auto dest: in_set_takeD)

lemma AddToRecents_list:
  "RecentKaomojis (AddToRecents e s) =
     e # take 7 (filter (\<lambda>k. Character k \<noteq> Character e) (RecentKaomojis s))"
  by (simp add: AddToRecents_def numeral_eq_Suc)

lemma AddToRecents_length: "length (RecentKaomojis (AddToRecents e s)) \<le> 8"
  by (simp add: AddToRecents_def)

lemma AddToRecents_distinct:
  assumes "distinct (map Character (RecentKaomojis s))"
  shows "distinct (map Character (RecentKaomojis (AddToRecents e s)))"
proof -
  let ?F = "filter (\<lambda>k. Character k \<noteq> Character e) (RecentKaomojis s)"
  have "distinct (map Character ?F)" using assms by (rule distinct_map_filter)
  then have "distinct (map Character (take 7 ?F))"
    by (simp add: take_map [symmetric])
  moreover have "Character e \<notin> set (map Character (take 7 ?F))"
    by (auto dest: in_set_takeD)
  ultimately show ?thesis by (simp add: AddToRecents_list)
qed

lemma AddToRecents_twice:
  assumes "Character e1 = Character e2"
  shows "RecentKaomojis (AddToRecents e2 (AddToRecents e1 s)) =
           e2 # tl (RecentKaomojis (AddToRecents e1 s))"
proof -
  let ?F = "filter (\<lambda>k. Character k \<noteq> Character e2) (RecentKaomojis s)"
  have "RecentKaomojis (AddToRecents e2 (AddToRecents e1 s)) =
          e2 # take 7 (filter (\<lambda>k. Character k \<noteq> Character e2) (e1 # take 7 ?F))"
    using assms by (simp add: AddToRecents_list)
  also have "\<dots> = e2 # take 7 (take 7 ?F)"
    using assms by (simp add: filter_take_filter)
  finally show ?thesis using assms by (simp add: AddToRecents_list)
qed

lemma recents_invariant:
  "distinct (map Character (RecentKaomojis s0)) \<and> length (RecentKaomojis s0) \<le> 8 \<Longrightarrow>
   distinct (map Character (RecentKaomojis (foldl (\<lambda>s e. AddToRecents e s) s0 es))) \<and>
   length (RecentKaomojis (foldl (\<lambda>s e. AddToRecents e s) s0 es)) \<le> 8"
proof (induction es arbitrary: s0)
  case Nil
  then show ?case by simp
next
  case (Cons e es)
  have "distinct (map Character (RecentKaomojis (AddToRecents e s0))) \<and>
        length (RecentKaomojis (AddToRecents e s0)) \<le> 8"
    using Cons.prems AddToRecents_distinct AddToRecents_length by blast
  from Cons.IH [OF this] show ?case by simp
qed

text \<open>
  C7. \<^verbatim>\<open>AddToRecents\<close> drops every element with the glyph of the entry, puts the entry in
  front and keeps the first 8. Recording two entries of one glyph in a row leaves the
  length as it was after the first and the second entry in front. The list never has
  more than 8 elements, glyphs that were pairwise different stay so, and therefore the
  list built from the empty one by any sequence of recordings has no glyph twice.
\<close>

theorem AddToRecents_record:
  "RecentKaomojis (AddToRecents e s) =
     take 8 (e # filter (\<lambda>k. Character k \<noteq> Character e) (RecentKaomojis s))
   \<and> (Character e1 = Character e2 \<longrightarrow>
        length (RecentKaomojis (AddToRecents e2 (AddToRecents e1 s))) =
          length (RecentKaomojis (AddToRecents e1 s)) \<and>
        (\<exists>rest. RecentKaomojis (AddToRecents e2 (AddToRecents e1 s)) = e2 # rest))
   \<and> length (RecentKaomojis (AddToRecents e s)) \<le> 8
   \<and> (distinct (map Character (RecentKaomojis s)) \<longrightarrow>
        distinct (map Character (RecentKaomojis (AddToRecents e s))))
   \<and> (RecentKaomojis s = [] \<longrightarrow>
        distinct (map Character (RecentKaomojis (foldl (\<lambda>s e. AddToRecents e s) s es))) \<and>
        length (RecentKaomojis (foldl (\<lambda>s e. AddToRecents e s) s es)) \<le> 8)"
proof (intro conjI impI)
  show "RecentKaomojis (AddToRecents e s) =
     take 8 (e # filter (\<lambda>k. Character k \<noteq> Character e) (RecentKaomojis s))"
    by (simp add: AddToRecents_def)
next
  assume c: "Character e1 = Character e2"
  have "RecentKaomojis (AddToRecents e1 s) \<noteq> []" by (simp add: AddToRecents_list)
  then have "length (e2 # tl (RecentKaomojis (AddToRecents e1 s))) =
          length (RecentKaomojis (AddToRecents e1 s))"
    by (cases "RecentKaomojis (AddToRecents e1 s)") simp_all
  then show "length (RecentKaomojis (AddToRecents e2 (AddToRecents e1 s))) =
          length (RecentKaomojis (AddToRecents e1 s))"
    by (simp only: AddToRecents_twice [OF c])
  show "\<exists>rest. RecentKaomojis (AddToRecents e2 (AddToRecents e1 s)) = e2 # rest"
    by (simp add: AddToRecents_twice [OF c])
next
  show "length (RecentKaomojis (AddToRecents e s)) \<le> 8" by (rule AddToRecents_length)
next
  assume "distinct (map Character (RecentKaomojis s))"
  then show "distinct (map Character (RecentKaomojis (AddToRecents e s)))"
    by (rule AddToRecents_distinct)
next
  assume e: "RecentKaomojis s = []"
  then have "distinct (map Character (RecentKaomojis s)) \<and> length (RecentKaomojis s) \<le> 8"
    by simp
  from recents_invariant [OF this]
  show "distinct (map Character (RecentKaomojis (foldl (\<lambda>s e. AddToRecents e s) s es)))"
    and "length (RecentKaomojis (foldl (\<lambda>s e. AddToRecents e s) s es)) \<le> 8"
    by simp_all
qed

theorem AddToRecents_record_witness:
  "Character joy_entry = Character (joy_entry\<lparr>Tags := []\<rparr>)
   \<and> RecentKaomojis (AddToRecents (joy_entry\<lparr>Tags := []\<rparr>)
        (AddToRecents joy_entry (AddToRecents sad_entry (initial_state example_catalog)))) =
       [joy_entry\<lparr>Tags := []\<rparr>, sad_entry]
   \<and> distinct (map Character (RecentKaomojis (AddToRecents sad_entry (initial_state example_catalog))))
   \<and> RecentKaomojis (initial_state example_catalog) = []
   \<and> RecentKaomojis (foldl (\<lambda>s e. AddToRecents e s) (initial_state example_catalog)
        [joy_entry, sad_entry, joy_entry]) = [joy_entry, sad_entry]"
  using AddToRecents_record [where e = sad_entry and s = "initial_state example_catalog"
          and ?e1.0 = joy_entry and ?e2.0 = "joy_entry\<lparr>Tags := []\<rparr>"
          and es = "[joy_entry, sad_entry, joy_entry]"]
  by (simp add: AddToRecents_def example_defs)

section \<open>Merging the user's entries on mount\<close>

text \<open>
  C8. When the load resolves to a list, the catalog afterwards is the old catalog
  followed by the loaded entries whose glyph no old entry has, in the order they were
  loaded; the old entries keep their places and their contents. A rejected or null load
  leaves the catalog as it was.
\<close>

theorem onMount_load_merge:
  "KaomojiList (fst (onMount_load (LoadResolved (Some userItems)) fit s)) =
     KaomojiList s @ filter (\<lambda>k. Character k \<notin> Character ` set (KaomojiList s)) userItems
   \<and> take (length (KaomojiList s))
        (KaomojiList (fst (onMount_load (LoadResolved (Some userItems)) fit s))) = KaomojiList s
   \<and> KaomojiList (fst (onMount_load (LoadResolved None) fit s)) = KaomojiList s
   \<and> KaomojiList (fst (onMount_load LoadRejected fit s)) = KaomojiList s"
  by (cases fit) (simp_all add: onMount_load_def RecomputeCols_def Let_def)

section \<open>The selection cursor\<close>

lemma FilteredResults_blank_query: "trim q = [] \<Longrightarrow> FilteredResults fuse xs q = xs"
  by (simp add: FilteredResults_def)

text \<open>
  C4. For a cursor that is not negative, the effect that runs after the results changed
  to length \<open>newLen\<close> sets the cursor to 0 when \<open>newLen\<close> is 0, to \<open>newLen - 1\<close> when the
  cursor was at or beyond \<open>newLen\<close>, and leaves it otherwise; so with a non-empty result
  list the cursor ends in \<open>[0, newLen - 1]\<close>. Nothing but the cursor changes.
\<close>

theorem SelectedIndex_effect_clamps:
  "0 \<le> SelectedIndex s \<Longrightarrow>
   (let newLen = int (length (FilteredResults fuse (KaomojiList s) (SearchQuery s)));
        s' = SelectedIndex_effect fuse s
    in (newLen = 0 \<longrightarrow> SelectedIndex s' = 0)
       \<and> (newLen \<noteq> 0 \<and> SelectedIndex s \<ge> newLen \<longrightarrow> SelectedIndex s' = newLen - 1)
       \<and> (newLen \<noteq> 0 \<and> SelectedIndex s < newLen \<longrightarrow> SelectedIndex s' = SelectedIndex s)
       \<and> (newLen \<noteq> 0 \<longrightarrow> 0 \<le> SelectedIndex s' \<and> SelectedIndex s' \<le> newLen - 1)
       \<and> s' = s\<lparr>SelectedIndex := SelectedIndex s'\<rparr>)"
  by (auto simp: SelectedIndex_effect_def Let_def)

theorem SelectedIndex_effect_clamps_witness:
  "0 \<le> SelectedIndex ((initial_state example_catalog)\<lparr>SelectedIndex := 7\<rparr>)
   \<and> SelectedIndex_effect fuse_none ((initial_state example_catalog)\<lparr>SelectedIndex := 7\<rparr>) =
       (initial_state example_catalog)\<lparr>SelectedIndex := 2\<rparr>"
proof -
  have h: "0 \<le> SelectedIndex ((initial_state example_catalog)\<lparr>SelectedIndex := 7\<rparr>)"
    by simp
  from SelectedIndex_effect_clamps [OF h, where fuse = fuse_none] show ?thesis
    by (simp add: SelectedIndex_effect_def Let_def FilteredResults_blank_query trim_def
          example_defs)
qed

lemma smod_nonneg_eq: "0 \<le> a \<Longrightarrow> 0 < b \<Longrightarrow> a smod b = a mod (b::int)"
  by (simp add: signed_modulo_int_def sgn_if)

text \<open>
  The keyboard handler never makes the cursor negative (the column count is at least 1
  once \<^verbatim>\<open>RecomputeCols\<close> has run), so the clamp above always starts from a cursor that is
  not negative.
\<close>

lemma smod_nonneg: "0 \<le> a \<Longrightarrow> 0 < b \<Longrightarrow> 0 \<le> a smod (b::int)"
  by (simp add: smod_nonneg_eq)

lemma CopyToClipboard_SelectedIndex:
  "SelectedIndex (fst (CopyToClipboard native_ok navigator_ok character index s)) = SelectedIndex s"
  by (simp add: CopyToClipboard_def HandleCopySuccess_def AddToRecents_def split: option.splits)

lemma HandleKeyDown_cursor_nonneg:
  assumes "0 \<le> SelectedIndex s" and "0 \<le> GridCols s"
  shows "0 \<le> SelectedIndex (fst (HandleKeyDown fuse native_ok navigator_ok event s))"
proof -
  let ?n = "int (length (FilteredResults fuse (KaomojiList s) (SearchQuery s)))"
  have r: "0 \<le> (SelectedIndex s + 1) smod ?n" if "?n \<noteq> 0"
    using that assms(1) by (intro smod_nonneg) simp_all
  have l: "0 \<le> (SelectedIndex s - 1 + ?n) smod ?n" if "?n \<noteq> 0"
  proof -
    from that have pos: "0 < ?n" by simp
    with assms(1) have "0 \<le> SelectedIndex s - 1 + ?n" by linarith
    from smod_nonneg [OF this pos] show ?thesis .
  qed
  have c: "0 \<le> SelectedIndex s1"
    if "CopyToClipboard native_ok navigator_ok ch i s = (s1, tr)" for ch i s1 tr
    using CopyToClipboard_SelectedIndex [of native_ok navigator_ok ch i s] that assms(1)
    by simp
  show ?thesis
    using assms r l c
    by (auto simp: HandleKeyDown_def Let_def split: option.splits prod.splits)
qed

lemma RecomputeCols_positive: "1 \<le> GridCols (RecomputeCols (Some n) s)"
  by (simp add: RecomputeCols_def)

lemma HandleKeyDown_ArrowRight:
  assumes "\<not> ShowAddModal s" "targetTag event \<noteq> Some ''INPUT''" "targetTag event \<noteq> Some ''TEXTAREA''"
    and "key event = ''ArrowRight''"
    and "FilteredResults fuse (KaomojiList s) (SearchQuery s) \<noteq> []"
  shows "fst (HandleKeyDown fuse a b event s) =
           s\<lparr>SelectedIndex := (SelectedIndex s + 1) smod
                int (length (FilteredResults fuse (KaomojiList s) (SearchQuery s)))\<rparr>"
  using assms by (auto simp: HandleKeyDown_def Let_def split: option.splits)

lemma HandleKeyDown_ArrowLeft:
  assumes "\<not> ShowAddModal s" "targetTag event \<noteq> Some ''INPUT''" "targetTag event \<noteq> Some ''TEXTAREA''"
    and "key event = ''ArrowLeft''"
    and "FilteredResults fuse (KaomojiList s) (SearchQuery s) \<noteq> []"
  shows "fst (HandleKeyDown fuse a b event s) =
           s\<lparr>SelectedIndex := (SelectedIndex s - 1 + int (length (FilteredResults fuse (KaomojiList s) (SearchQuery s)))) smod
                int (length (FilteredResults fuse (KaomojiList s) (SearchQuery s)))\<rparr>"
  using assms by (auto simp: HandleKeyDown_def Let_def split: option.splits)

lemma HandleKeyDown_empty:
  assumes "FilteredResults fuse (KaomojiList s) (SearchQuery s) = []" "\<not> ShowAddModal s"
  shows "fst (HandleKeyDown fuse a b event s) = s"
    and "set (snd (HandleKeyDown fuse a b event s)) \<subseteq> {PreventDefault}"
  using assms by (auto simp: HandleKeyDown_def Let_def split: option.splits)

lemma HandleKeyDown_modal:
  assumes "ShowAddModal s"
  shows "HandleKeyDown fuse a b event s =
          (if key event = ''Escape'' then (s\<lparr>ShowAddModal := False\<rparr>, []) else (s, []))"
  using assms by (simp add: HandleKeyDown_def)

text \<open>
  C9. With the add modal closed and the key not typed into a text field, on a non-empty
  result list of length \<open>len\<close> the key ArrowRight moves the cursor from \<open>len - 1\<close> to 0 and
  ArrowLeft moves it from 0 to \<open>len - 1\<close>; from any cursor that is not negative they move
  to the next and the previous index modulo \<open>len\<close>. On an empty result list the
  handler leaves the state as it is.
\<close>

theorem HandleKeyDown_horizontal_wraps:
  assumes "\<not> ShowAddModal s"
    and "targetTag event \<noteq> Some ''INPUT''" and "targetTag event \<noteq> Some ''TEXTAREA''"
  shows
   "(let results = FilteredResults fuse (KaomojiList s) (SearchQuery s);
         len = int (length results);
         s' = fst (HandleKeyDown fuse native_ok navigator_ok event s)
     in (results \<noteq> [] \<and> key event = ''ArrowRight'' \<and> SelectedIndex s = len - 1
           \<longrightarrow> s' = s\<lparr>SelectedIndex := 0\<rparr>)
      \<and> (results \<noteq> [] \<and> key event = ''ArrowLeft'' \<and> SelectedIndex s = 0
           \<longrightarrow> s' = s\<lparr>SelectedIndex := len - 1\<rparr>)
      \<and> (results \<noteq> [] \<and> key event = ''ArrowRight'' \<and> 0 \<le> SelectedIndex s
           \<longrightarrow> s' = s\<lparr>SelectedIndex := (SelectedIndex s + 1) mod len\<rparr>)
      \<and> (results \<noteq> [] \<and> key event = ''ArrowLeft'' \<and> 0 \<le> SelectedIndex s
           \<longrightarrow> s' = s\<lparr>SelectedIndex := (SelectedIndex s - 1) mod len\<rparr>)
      \<and> (results = [] \<longrightarrow> s' = s))"
proof -
  let ?results = "FilteredResults fuse (KaomojiList s) (SearchQuery s)"
  let ?len = "int (length ?results)"
  let ?s' = "fst (HandleKeyDown fuse native_ok navigator_ok event s)"
  have right: "?s' = s\<lparr>SelectedIndex := (SelectedIndex s + 1) mod ?len\<rparr>"
    if "?results \<noteq> []" "key event = ''ArrowRight''" "0 \<le> SelectedIndex s"
  proof -
    from that have "0 < ?len" by simp
    with that have "(SelectedIndex s + 1) smod ?len = (SelectedIndex s + 1) mod ?len"
      by (intro smod_nonneg_eq) simp_all
    with HandleKeyDown_ArrowRight [OF assms that(2) that(1)] show ?thesis by simp
  qed
  have left: "?s' = s\<lparr>SelectedIndex := (SelectedIndex s - 1) mod ?len\<rparr>"
    if "?results \<noteq> []" "key event = ''ArrowLeft''" "0 \<le> SelectedIndex s"
  proof -
    from that have pos: "0 < ?len" by simp
    from that(3) pos have "0 \<le> SelectedIndex s - 1 + ?len" by linarith
    from smod_nonneg_eq [OF this pos]
    have "(SelectedIndex s - 1 + ?len) smod ?len = (SelectedIndex s - 1 + ?len) mod ?len" .
    with HandleKeyDown_ArrowLeft [OF assms that(2) that(1)] show ?thesis by simp
  qed
  have r0: "?s' = s\<lparr>SelectedIndex := 0\<rparr>"
    if "?results \<noteq> []" "key event = ''ArrowRight''" "SelectedIndex s = ?len - 1"
  proof -
    from that have "0 \<le> SelectedIndex s" by (cases ?results) simp_all
    from right [OF that(1,2) this] that(3) show ?thesis by simp
  qed
  have l0: "?s' = s\<lparr>SelectedIndex := ?len - 1\<rparr>"
    if "?results \<noteq> []" "key event = ''ArrowLeft''" "SelectedIndex s = 0"
  proof -
    from that have pos: "0 < ?len" by simp
    then have "(- 1) mod ?len = ?len - 1"
      by (simp add: zmod_minus1)
    with left [OF that(1,2)] that(3) show ?thesis by simp
  qed
  have e: "?s' = s" if "?results = []"
    using HandleKeyDown_empty(1) [OF that assms(1)] .
  from right left r0 l0 e show ?thesis unfolding Let_def by blast
qed

theorem HandleKeyDown_horizontal_wraps_witness:
  "\<not> ShowAddModal ((initial_state example_catalog)\<lparr>SelectedIndex := 2\<rparr>)
   \<and> targetTag \<lparr>key = ''ArrowRight'', targetTag = None\<rparr> \<noteq> Some ''INPUT''
   \<and> targetTag \<lparr>key = ''ArrowRight'', targetTag = None\<rparr> \<noteq> Some ''TEXTAREA''
   \<and> FilteredResults fuse_none example_catalog [] = example_catalog
   \<and> fst (HandleKeyDown fuse_none True True \<lparr>key = ''ArrowRight'', targetTag = None\<rparr>
            ((initial_state example_catalog)\<lparr>SelectedIndex := 2\<rparr>)) =
       (initial_state example_catalog)\<lparr>SelectedIndex := 0\<rparr>"
proof -
  have m: "\<not> ShowAddModal ((initial_state example_catalog)\<lparr>SelectedIndex := 2\<rparr>)"
    by (simp add: initial_state_def)
  have t: "targetTag \<lparr>key = ''ArrowRight'', targetTag = None\<rparr> \<noteq> Some ''INPUT''"
          "targetTag \<lparr>key = ''ArrowRight'', targetTag = None\<rparr> \<noteq> Some ''TEXTAREA''"
    by simp_all
  from HandleKeyDown_horizontal_wraps [OF m t, where fuse = fuse_none and native_ok = True
         and navigator_ok = True] show ?thesis
    by (simp add: HandleKeyDown_def Let_def FilteredResults_blank_query trim_def example_defs
          signed_modulo_int_def)
qed

text \<open>
  C10, as amended. When the result list is empty and the add modal is closed, the
  handler leaves the whole state unchanged for every key, and its only effect is
  \<^verbatim>\<open>preventDefault\<close>, which it calls exactly for Enter, for Escape and for an arrow key
  that is not typed into a text field: Enter writes nothing to the clipboard and Escape
  does not clear the query. When the add modal is open, whatever the result list is,
  Escape closes the modal and changes nothing else, every other key changes nothing, and
  the handler has no effect at all.
\<close>

theorem HandleKeyDown_empty_results:
  "(\<not> ShowAddModal s \<and> FilteredResults fuse (KaomojiList s) (SearchQuery s) = [] \<longrightarrow>
      HandleKeyDown fuse native_ok navigator_ok event s =
        (s, if key event = ''Enter'' \<or> key event = ''Escape'' \<or>
               (key event \<in> {''ArrowRight'', ''ArrowLeft'', ''ArrowDown'', ''ArrowUp''} \<and>
                targetTag event \<noteq> Some ''INPUT'' \<and> targetTag event \<noteq> Some ''TEXTAREA'')
            then [PreventDefault] else []))
   \<and> (ShowAddModal s \<longrightarrow>
        HandleKeyDown fuse native_ok navigator_ok event s =
          (if key event = ''Escape'' then (s\<lparr>ShowAddModal := False\<rparr>, []) else (s, [])))"
proof (intro conjI impI)
  assume "\<not> ShowAddModal s \<and> FilteredResults fuse (KaomojiList s) (SearchQuery s) = []"
  then show "HandleKeyDown fuse native_ok navigator_ok event s =
        (s, if key event = ''Enter'' \<or> key event = ''Escape'' \<or>
               (key event \<in> {''ArrowRight'', ''ArrowLeft'', ''ArrowDown'', ''ArrowUp''} \<and>
                targetTag event \<noteq> Some ''INPUT'' \<and> targetTag event \<noteq> Some ''TEXTAREA'')
            then [PreventDefault] else [])"
    by (cases "targetTag event") (auto simp: HandleKeyDown_def Let_def)
next
  assume "ShowAddModal s"
  then show "HandleKeyDown fuse native_ok navigator_ok event s =
          (if key event = ''Escape'' then (s\<lparr>ShowAddModal := False\<rparr>, []) else (s, []))"
    by (rule HandleKeyDown_modal)
qed

lemma no_match_facts:
  "FilteredResults fuse_none example_catalog ''cat:zzz'' = []"
  by code_simp

theorem HandleKeyDown_empty_results_witness:
  "FilteredResults fuse_none example_catalog ''cat:zzz'' = []
   \<and> \<not> ShowAddModal ((initial_state example_catalog)\<lparr>SearchQuery := ''cat:zzz''\<rparr>)
   \<and> HandleKeyDown fuse_none True True \<lparr>key = ''Escape'', targetTag = Some ''INPUT''\<rparr>
        ((initial_state example_catalog)\<lparr>SearchQuery := ''cat:zzz''\<rparr>) =
       ((initial_state example_catalog)\<lparr>SearchQuery := ''cat:zzz''\<rparr>, [PreventDefault])
   \<and> HandleKeyDown fuse_none True True \<lparr>key = ''ArrowRight'', targetTag = Some ''INPUT''\<rparr>
        ((initial_state example_catalog)\<lparr>SearchQuery := ''cat:zzz''\<rparr>) =
       ((initial_state example_catalog)\<lparr>SearchQuery := ''cat:zzz''\<rparr>, [])
   \<and> ShowAddModal ((initial_state example_catalog)\<lparr>ShowAddModal := True\<rparr>)
   \<and> FilteredResults fuse_none example_catalog [] \<noteq> []
   \<and> HandleKeyDown fuse_none True True \<lparr>key = ''Escape'', targetTag = None\<rparr>
        ((initial_state example_catalog)\<lparr>ShowAddModal := True\<rparr>) =
       (initial_state example_catalog, [])
   \<and> HandleKeyDown fuse_none True True \<lparr>key = ''Enter'', targetTag = None\<rparr>
        ((initial_state example_catalog)\<lparr>ShowAddModal := True\<rparr>) =
       ((initial_state example_catalog)\<lparr>ShowAddModal := True\<rparr>, [])"
proof -
  let ?s = "(initial_state example_catalog)\<lparr>SearchQuery := ''cat:zzz''\<rparr>"
  let ?m = "(initial_state example_catalog)\<lparr>ShowAddModal := True\<rparr>"
  have e: "\<not> ShowAddModal ?s \<and> FilteredResults fuse_none (KaomojiList ?s) (SearchQuery ?s) = []"
    using no_match_facts by (simp add: initial_state_def)
  have m: "ShowAddModal ?m" by simp
  have ne: "FilteredResults fuse_none example_catalog [] \<noteq> []"
    by (simp add: FilteredResults_blank_query trim_def example_catalog_def)
  from HandleKeyDown_empty_results [where s = ?s and fuse = fuse_none and native_ok = True
         and navigator_ok = True and event = "\<lparr>key = ''Escape'', targetTag = Some ''INPUT''\<rparr>"]
       HandleKeyDown_empty_results [where s = ?s and fuse = fuse_none and native_ok = True
         and navigator_ok = True and event = "\<lparr>key = ''ArrowRight'', targetTag = Some ''INPUT''\<rparr>"]
       HandleKeyDown_empty_results [where s = ?m and fuse = fuse_none and native_ok = True
         and navigator_ok = True and event = "\<lparr>key = ''Escape'', targetTag = None\<rparr>"]
       HandleKeyDown_empty_results [where s = ?m and fuse = fuse_none and native_ok = True
         and navigator_ok = True and event = "\<lparr>key = ''Enter'', targetTag = None\<rparr>"]
       e m ne no_match_facts
  show ?thesis
    by (simp add: initial_state_def)
qed

text \<open>
  C10 as it was stated fails with the add modal open: the result list is empty, and
  Escape still changes the state, because the modal branch runs before the guard.
\<close>

theorem HandleKeyDown_empty_results_modal_counterexample:
  "FilteredResults fuse_none
     (KaomojiList ((initial_state example_catalog)\<lparr>SearchQuery := ''cat:zzz'', ShowAddModal := True\<rparr>))
     (SearchQuery ((initial_state example_catalog)\<lparr>SearchQuery := ''cat:zzz'', ShowAddModal := True\<rparr>)) = []
   \<and> fst (HandleKeyDown fuse_none True True \<lparr>key = ''Escape'', targetTag = None\<rparr>
        ((initial_state example_catalog)\<lparr>SearchQuery := ''cat:zzz'', ShowAddModal := True\<rparr>)) \<noteq>
       (initial_state example_catalog)\<lparr>SearchQuery := ''cat:zzz'', ShowAddModal := True\<rparr>"
  using no_match_facts by (simp add: initial_state_def HandleKeyDown_def)

section \<open>Copying\<close>

lemma find_Character:
  "character \<in> Character ` set xs \<Longrightarrow>
   \<exists>entry. find (\<lambda>k. Character k = character) xs = Some entry \<and> entry \<in> set xs \<and> Character entry = character"
  by (induction xs) auto

text \<open>
  C3. A copy writes to the fallback clipboard exactly once when the native write fails
  and not at all when it succeeds. When both writes fail, the state (the recents with
  it) is unchanged, the last thing the handler does is the console warning
  \<^verbatim>\<open>Navigator copy failed\<close>, and no toast is scheduled. When either write succeeds, the
  copied glyph and index are recorded and the toast is scheduled, without that warning;
  and when the glyph is that of a catalog entry, such an entry is recorded in the
  recents.
\<close>

theorem CopyToClipboard_outcomes:
  "(case CopyToClipboard native_ok navigator_ok character index s of
      (s', tr) \<Rightarrow>
        fallback_writes tr = (if native_ok then [] else [NavigatorWriteText character])
        \<and> (\<not> native_ok \<and> \<not> navigator_ok \<longrightarrow>
              s' = s \<and> last tr = ConsoleWarn ''Navigator copy failed'' \<and> ToastScheduled \<notin> set tr)
        \<and> (native_ok \<or> navigator_ok \<longrightarrow>
              LastCopied s' = character \<and> LastCopiedIndex s' = index \<and> last tr = ToastScheduled
              \<and> ConsoleWarn ''Navigator copy failed'' \<notin> set tr
              \<and> (character \<in> Character ` set (KaomojiList s) \<longrightarrow>
                   (\<exists>entry \<in> set (KaomojiList s). Character entry = character \<and>
                      RecentKaomojis s' =
                        take 8 (entry # filter (\<lambda>k. Character k \<noteq> character) (RecentKaomojis s))))))"
proof (cases "character \<in> Character ` set (KaomojiList s)")
  case True
  from find_Character [OF this] obtain entry where
    "find (\<lambda>k. Character k = character) (KaomojiList s) = Some entry"
    "entry \<in> set (KaomojiList s)" "Character entry = character" by blast
  then show ?thesis
    by (auto simp: CopyToClipboard_def fallback_writes_def HandleCopySuccess_def AddToRecents_def)
next
  case False
  then show ?thesis
    by (auto simp: CopyToClipboard_def fallback_writes_def HandleCopySuccess_def AddToRecents_def
             split: option.splits)
qed

theorem CopyToClipboard_outcomes_witness:
  "''(T_T)'' \<in> Character ` set (KaomojiList (initial_state example_catalog))
   \<and> CopyToClipboard False True ''(T_T)'' 1 (initial_state example_catalog) =
       ((initial_state example_catalog)
          \<lparr>RecentKaomojis := [sad_entry], LastCopied := ''(T_T)'', LastCopiedIndex := 1\<rparr>,
        [InvokeCopyToClipboard ''(T_T)'', ConsoleWarn ''Native copy failed, trying fallback...'',
         NavigatorWriteText ''(T_T)'', ToastScheduled])
   \<and> CopyToClipboard False False ''(T_T)'' 1 (initial_state example_catalog) =
       (initial_state example_catalog,
        [InvokeCopyToClipboard ''(T_T)'', ConsoleWarn ''Native copy failed, trying fallback...'',
         NavigatorWriteText ''(T_T)'', ConsoleWarn ''Navigator copy failed''])"
  using CopyToClipboard_outcomes [where native_ok = False and navigator_ok = True
          and character = "''(T_T)''" and index = 1 and s = "initial_state example_catalog"]
        CopyToClipboard_outcomes [where native_ok = False and navigator_ok = False
          and character = "''(T_T)''" and index = 1 and s = "initial_state example_catalog"]
  by (simp add: CopyToClipboard_def AddToRecents_def HandleCopySuccess_def example_defs)

section \<open>The ranker and the parser\<close>

lemma spec_token_holds_fun:
  "spec_token_holds (kind, v) =
     (\<lambda>k. if kind = ''cat'' then toLowerCase (Category k) = v
          else if kind = ''tag'' then list_ex (\<lambda>t. toLowerCase t = v) (Tags k)
          else True)"
  by (simp add: fun_eq_iff spec_token_holds_def)

lemma token_step_eq:
  "token_step (f, t, v) (b, xs, r) =
     (True, filter (spec_token_holds (t, sanitize v)) xs, trim (replace_first f r))"
  by (cases "t = ''cat''"; cases "t = ''tag''")
     (simp_all add: token_step_def spec_token_holds_fun Let_def)

lemma foldl_token_step:
  "foldl (\<lambda>st m. token_step m st) (b, xs, r) ms =
     (b \<or> ms \<noteq> [],
      filter (\<lambda>k. list_all (\<lambda>tok. spec_token_holds tok k) (map (\<lambda>(fullMatch, type, val). (type, sanitize val)) ms)) xs,
      foldl (\<lambda>r m. trim (replace_first (fst m) r)) r ms)"
proof (induction ms arbitrary: b xs r)
  case Nil
  then show ?case by simp
next
  case (Cons m ms)
  obtain f t v where m: "m = (f, t, v)" by (cases m)
  show ?case
    by (simp add: m token_step_eq Cons.IH)
qed

lemma token_loop_eq:
  "token_loop xs q =
     (exec_all True q \<noteq> [], spec_filtered xs q,
      foldl (\<lambda>r m. trim (replace_first (fst m) r)) q (exec_all True q))"
  by (simp add: token_loop_def foldl_token_step spec_filtered_def spec_tokens_def)

lemma remainingQuery_of_eq:
  "remainingQuery_of raw =
     foldl (\<lambda>r m. trim (replace_first (fst m) r)) (trim raw) (exec_all True (trim raw))"
  by (simp add: remainingQuery_of_def token_loop_eq)

text \<open>
  What \<^verbatim>\<open>FilteredResults\<close> returns, by cases: the catalog for a blank query; the fuzzy
  search of the whole catalog when no token matched; the entries that satisfy every
  filter, in catalog order, when tokens matched and \<^verbatim>\<open>remainingQuery\<close> ended empty; and
  the fuzzy search of those entries for \<^verbatim>\<open>remainingQuery\<close> otherwise.
\<close>

lemma FilteredResults_eq:
  "FilteredResults fuse xs q =
     (if trim q = [] then xs
      else if exec_all True (trim q) = [] then fuse xs (trim q)
      else if remainingQuery_of q = [] then spec_filtered xs (trim q)
      else fuse (spec_filtered xs (trim q)) (remainingQuery_of q))"
  by (simp add: FilteredResults_def token_loop_eq remainingQuery_of_eq Let_def)

lemma two_tokens_facts:
  "trim ''cat:Joy tag:blush'' = ''cat:Joy tag:blush''"
  "exec_all True ''cat:Joy tag:blush'' \<noteq> []"
  "remainingQuery_of ''cat:Joy tag:blush'' = ''tag:blush''"
  "spec_filtered example_catalog ''cat:Joy tag:blush'' = [joy_entry]"
  "spec_residual ''cat:Joy tag:blush'' = []"
  "trim ''cat:Joy'' = ''cat:Joy''"
  "exec_all True ''cat:Joy'' \<noteq> []"
  "remainingQuery_of ''cat:Joy'' = []"
  "spec_filtered example_catalog ''cat:Joy'' = [joy_entry, shy_entry]"
  by code_simp+

text \<open>
  C1. The query \<^verbatim>\<open>cat:Joy tag:blush\<close> is made of two structured tokens and nothing else:
  the specification's residual is empty and exactly one entry of the example catalog
  satisfies both filters. The script nevertheless hands that entry to the fuzzy search,
  with the second token as the pattern, and returns what the search returns; with a
  search that finds nothing the result is empty. The query \<^verbatim>\<open>cat:Joy\<close>, of one token, does
  give the entries of that category in catalog order, whatever the fuzzy search is.
\<close>

theorem FilteredResults_two_tokens_reach_fuse:
  "spec_residual ''cat:Joy tag:blush'' = []
   \<and> spec_filtered example_catalog ''cat:Joy tag:blush'' = [joy_entry]
   \<and> (\<forall>fuse. FilteredResults fuse example_catalog ''cat:Joy tag:blush'' =
                fuse [joy_entry] ''tag:blush'')
   \<and> FilteredResults fuse_none example_catalog ''cat:Joy tag:blush'' = []
   \<and> (\<forall>fuse. FilteredResults fuse example_catalog ''cat:Joy'' = [joy_entry, shy_entry])"
  by (simp add: FilteredResults_eq two_tokens_facts fuse_none_def)

text \<open>
  C2. The loop trims \<^verbatim>\<open>remainingQuery\<close> after every removal. Once a token at the start of
  the query is removed, the trim takes the white space in front of the next token, and
  \<^verbatim>\<open>replace\<close> no longer finds that token's \<^verbatim>\<open>fullMatch\<close>: the token stays in
  \<^verbatim>\<open>remainingQuery\<close>, where the specification's residual has it removed. A query whose
  first token is not at the start is not affected.
\<close>

theorem remainingQuery_keeps_second_token:
  "remainingQuery_of ''cat:Joy tag:blush'' = ''tag:blush''
   \<and> spec_residual ''cat:Joy tag:blush'' = []
   \<and> remainingQuery_of ''cat:Joy tag:blush happy'' = ''tag:blush happy''
   \<and> spec_residual ''cat:Joy tag:blush happy'' = ''happy''
   \<and> remainingQuery_of ''happy cat:Joy tag:blush'' = ''happy''
   \<and> spec_residual ''happy cat:Joy tag:blush'' = ''happy''"
  by code_simp

end
